theory Spec2Isabelle
  imports Complex_Main "HOL-Library.Word"
begin

unbundle bit_operations_syntax

section \<open>Exceptions\<close>

text \<open>
  The functions of \<^verbatim>\<open>xstools/xsboard.py\<close> raise and catch the exception classes
  \<^verbatim>\<open>XsError\<close>, \<^verbatim>\<open>XsMajorError\<close> and \<^verbatim>\<open>XsMinorError\<close>; Python's own
  \<^verbatim>\<open>IndexError\<close>, \<^verbatim>\<open>ValueError\<close> and \<^verbatim>\<open>KeyError\<close> escape from indexing,
  \<^verbatim>\<open>array.index\<close> and dictionary lookup. Any other exception of a collaborator is
  \<open>OtherException\<close>.
\<close>

datatype exn =
    XsError string
  | XsMajorError string
  | XsMinorError string
  | IndexError
  | ValueError
  | KeyError
  | OtherException string

text \<open>
  Modelled from the spec: the class hierarchy of \<^verbatim>\<open>xstools/xserror.py\<close>, which
  \<^verbatim>\<open>xsboard.py\<close> imports and which is not part of the sources at hand. The
  specification knows one family of hardware errors with two kinds, fatal ("major") and
  recoverable ("minor"); \<^verbatim>\<open>except XsError\<close> therefore catches \<^verbatim>\<open>XsError\<close> and both of
  its kinds, and nothing else. The code relies on the same reading: \<open>is_connected\<close>
  answers \<open>False\<close> by catching \<^verbatim>\<open>XsError\<close> around a call that raises
  \<^verbatim>\<open>XsMajorError\<close> and \<^verbatim>\<open>XsMinorError\<close>.
\<close>

fun is_XsError :: "exn \<Rightarrow> bool" where
  "is_XsError (XsError _) = True"
| "is_XsError (XsMajorError _) = True"
| "is_XsError (XsMinorError _) = True"
| "is_XsError _ = False"

text \<open>
  Modelled from the spec: the two kinds of hardware error, fatal
  (\<^verbatim>\<open>XsMajorError\<close>) and recoverable (\<^verbatim>\<open>XsMinorError\<close>).
\<close>

fun is_fatal :: "exn \<Rightarrow> bool" where
  "is_fatal (XsMajorError _) = True"
| "is_fatal _ = False"

text \<open>Modelled from the spec: the recoverable kind, \<^verbatim>\<open>XsMinorError\<close>.\<close>

fun is_recoverable :: "exn \<Rightarrow> bool" where
  "is_recoverable (XsMinorError _) = True"
| "is_recoverable _ = False"

section \<open>The device link\<close>

text \<open>
  \<^verbatim>\<open>XsUsb\<close>, \<^verbatim>\<open>XsJtag\<close>, the microcontroller and the FPGA drivers are collaborators
  outside \<^verbatim>\<open>xsboard.py\<close>. The model records every call made on them, in order, and
  the device answers each call as a function of the calls made before it, so a device
  may answer the same request differently the second time.
\<close>

type_synonym byte = "8 word"

datatype board_class = XulaOldFmw | Xula50 | Xula200 | Xula2lx25 | Xula2lx9 | XulaNoJtag

datatype call =
    New board_class nat
  | GetInfo
  | Reset
  | FpgaIsConnected board_class

type_synonym trace = "call list"

record device =
  new_reply :: "trace \<Rightarrow> board_class \<Rightarrow> nat \<Rightarrow> exn option"
  get_info_reply :: "trace \<Rightarrow> exn + byte list"
  reset_reply :: "trace \<Rightarrow> exn option"
  fpga_is_connected_reply :: "trace \<Rightarrow> board_class \<Rightarrow> exn + bool"

text \<open>\<^verbatim>\<open>self.xsusb.get_info()\<close>\<close>

definition xsusb_get_info :: "device \<Rightarrow> trace \<Rightarrow> (exn + byte list) \<times> trace" where
  "xsusb_get_info dev tr = (get_info_reply dev tr, tr @ [GetInfo])"

text \<open>\<^verbatim>\<open>XulaMicro.reset\<close>: \<^verbatim>\<open>self.xsusb.reset()\<close>\<close>

definition reset :: "device \<Rightarrow> trace \<Rightarrow> (exn + unit) \<times> trace" where
  "reset dev tr =
     ((case reset_reply dev tr of None \<Rightarrow> Inr () | Some e \<Rightarrow> Inl e), tr @ [Reset])"

section \<open>Reading the board information\<close>

subsection \<open>Python's string formatting\<close>

definition digit_char :: "nat \<Rightarrow> char" where
  "digit_char d = ''0123456789abcdef'' ! d"

fun hex_of_nat :: "nat \<Rightarrow> string" where
  "hex_of_nat n =
     (if n < 16 then [digit_char n] else hex_of_nat (n div 16) @ [digit_char (n mod 16)])"

declare hex_of_nat.simps [simp del]

fun dec_of_nat :: "nat \<Rightarrow> string" where
  "dec_of_nat n =
     (if n < 10 then [digit_char n] else dec_of_nat (n div 10) @ [digit_char (n mod 10)])"

declare dec_of_nat.simps [simp del]

text \<open>\<^verbatim>\<open>'%02x' % n\<close>: lower-case hexadecimal, padded with zeros to two characters.\<close>

definition fmt_02x :: "nat \<Rightarrow> string" where
  "fmt_02x n = replicate (2 - length (hex_of_nat n)) (CHR ''0'') @ hex_of_nat n"

text \<open>\<^verbatim>\<open>'%d' % n\<close>\<close>

definition fmt_d :: "nat \<Rightarrow> string" where
  "fmt_d n = dec_of_nat n"

text \<open>\<^verbatim>\<open>info[i]\<close> on an array: \<^verbatim>\<open>IndexError\<close> beyond the end.\<close>

definition item :: "'a list \<Rightarrow> nat \<Rightarrow> exn + 'a" where
  "item xs i = (if i < length xs then Inr (xs ! i) else Inl IndexError)"

text \<open>\<^verbatim>\<open>desc.index(x)\<close>: the first position of \<open>x\<close>, \<^verbatim>\<open>ValueError\<close> when there is none.\<close>

fun first_index :: "'a list \<Rightarrow> 'a \<Rightarrow> nat option" where
  "first_index [] x = None"
| "first_index (y # ys) x = (if y = x then Some 0 else map_option Suc (first_index ys x))"

definition index :: "'a list \<Rightarrow> 'a \<Rightarrow> exn + nat" where
  "index xs x = (case first_index xs x of None \<Rightarrow> Inl ValueError | Some i \<Rightarrow> Inr i)"

text \<open>\<^verbatim>\<open>a.tostring()\<close>: the bytes of the array as a string.\<close>

definition tostring :: "byte list \<Rightarrow> string" where
  "tostring bs = map (\<lambda>b. char_of (unat b)) bs"

subsection \<open>\<^verbatim>\<open>XulaMicro.get_board_info\<close>\<close>

type_synonym board_info = "string \<rightharpoonup> string"

text \<open>
  Lines 95 to 102: fetch the frame; on a hardware error reset the board and fetch once
  more; a hardware error of the reset or of the second fetch becomes the fatal error.
  An exception that is no \<^verbatim>\<open>XsError\<close> is not caught.
\<close>

definition fetch_info :: "device \<Rightarrow> trace \<Rightarrow> (exn + byte list) \<times> trace" where
  "fetch_info dev tr =
     (case xsusb_get_info dev tr of
        (Inr info, tr1) \<Rightarrow> (Inr info, tr1)
      | (Inl e, tr1) \<Rightarrow>
          if is_XsError e then
            (case reset dev tr1 of
               (Inl e2, tr2) \<Rightarrow>
                 (if is_XsError e2
                  then (Inl (XsMajorError ''Unable to get XESS board information.''), tr2)
                  else (Inl e2, tr2))
             | (Inr _, tr2) \<Rightarrow>
                 (case xsusb_get_info dev tr2 of
                    (Inl e3, tr3) \<Rightarrow>
                      (if is_XsError e3
                       then (Inl (XsMajorError ''Unable to get XESS board information.''), tr3)
                       else (Inl e3, tr3))
                  | (Inr info, tr3) \<Rightarrow> (Inr info, tr3)))
          else (Inl e, tr1))"

text \<open>
  Lines 103 to 113: the checksum, then the three fields. \<^verbatim>\<open>sum(info) & 0xff\<close> is the
  sum of the bytes modulo 256.
\<close>

definition parse_info :: "byte list \<Rightarrow> exn + board_info" where
  "parse_info info =
     (if sum_list (map unat info) mod 256 \<noteq> 0
      then Inl (XsMinorError ''XESS board information is corrupted.'')
      else
       (case item info 1 of Inl e \<Rightarrow> Inl e | Inr i1 \<Rightarrow>
        case item info 2 of Inl e \<Rightarrow> Inl e | Inr i2 \<Rightarrow>
        case item info 3 of Inl e \<Rightarrow> Inl e | Inr i3 \<Rightarrow>
        case item info 4 of Inl e \<Rightarrow> Inl e | Inr i4 \<Rightarrow>
        (let desc = drop 5 info in
         case index desc 0 of Inl e \<Rightarrow> Inl e | Inr desc_len \<Rightarrow>
           Inr (Map.empty
                 (''ID'' \<mapsto> fmt_02x (unat i1) @ fmt_02x (unat i2),
                  ''VERSION'' \<mapsto> fmt_d (unat i3) @ ''.'' @ fmt_d (unat i4),
                  ''DESCRIPTION'' \<mapsto> tostring (take desc_len desc))))))"

definition get_board_info :: "device \<Rightarrow> trace \<Rightarrow> (exn + board_info) \<times> trace" where
  "get_board_info dev tr =
     (case fetch_info dev tr of
        (Inl e, tr') \<Rightarrow> (Inl e, tr')
      | (Inr info, tr') \<Rightarrow> (parse_info info, tr'))"

subsection \<open>\<^verbatim>\<open>XulaMicro.get_board_fmw_version\<close>\<close>

text \<open>
  \<^verbatim>\<open>float(s)\<close> on a string of decimal digits with at most one point, which is what
  \<^verbatim>\<open>'%d.%d'\<close> builds; any other string is a \<^verbatim>\<open>ValueError\<close> here. The value is the
  exact rational: the two fields are bytes, so the string has at most three digits
  after the point and its rounding to a double never changes how it compares with 1.2.
\<close>

definition digit_value :: "char \<Rightarrow> nat option" where
  "digit_value c =
     (let n = (of_char c :: nat) in if 48 \<le> n \<and> n \<le> 57 then Some (n - 48) else None)"

fun nat_of_digits :: "nat \<Rightarrow> string \<Rightarrow> nat option" where
  "nat_of_digits acc [] = Some acc"
| "nat_of_digits acc (c # cs) =
     (case digit_value c of None \<Rightarrow> None | Some d \<Rightarrow> nat_of_digits (10 * acc + d) cs)"

definition py_float :: "string \<Rightarrow> exn + rat" where
  "py_float s =
     (let ip = takeWhile (\<lambda>c. c \<noteq> CHR ''.'') s;
          fp = drop (Suc (length ip)) s
      in if ip = [] \<and> fp = [] then Inl ValueError
         else (case (nat_of_digits 0 ip, nat_of_digits 0 fp) of
                 (Some a, Some b) \<Rightarrow> Inr (of_nat a + of_nat b / 10 ^ length fp)
               | _ \<Rightarrow> Inl ValueError))"

definition get_board_fmw_version :: "device \<Rightarrow> trace \<Rightarrow> (exn + rat) \<times> trace" where
  "get_board_fmw_version dev tr =
     (case get_board_info dev tr of
        (Inl e, tr') \<Rightarrow> (Inl e, tr')
      | (Inr board_info, tr') \<Rightarrow>
          (case board_info ''VERSION'' of
             None \<Rightarrow> (Inl KeyError, tr')
           | Some v \<Rightarrow> (py_float v, tr')))"

section \<open>Board classes and identification\<close>

text \<open>The class attribute \<^verbatim>\<open>name\<close>.\<close>

definition Xula_name :: string where
  "Xula_name = ''XuLA''"

definition Xula2_name :: string where
  "Xula2_name = ''XuLA2''"

fun name :: "board_class \<Rightarrow> string" where
  "name XulaOldFmw = ''XuLA UNKNOWN''"
| "name Xula50 = Xula_name @ ''-50''"
| "name Xula200 = Xula_name @ ''-200''"
| "name Xula2lx25 = Xula2_name @ ''-LX25''"
| "name Xula2lx9 = Xula2_name @ ''-LX9''"
| "name XulaNoJtag = ''XuLA UNKNOWN''"

text \<open>\<^verbatim>\<open>hasattr(self, 'fpga')\<close>: the four classes whose constructor sets \<^verbatim>\<open>self.fpga\<close>.\<close>

fun has_fpga :: "board_class \<Rightarrow> bool" where
  "has_fpga Xula50 = True"
| "has_fpga Xula200 = True"
| "has_fpga Xula2lx25 = True"
| "has_fpga Xula2lx9 = True"
| "has_fpga _ = False"

text \<open>\<^verbatim>\<open>str.lower()\<close> on the ASCII letters.\<close>

definition lower_char :: "char \<Rightarrow> char" where
  "lower_char c =
     (let n = (of_char c :: nat) in if 65 \<le> n \<and> n \<le> 90 then char_of (n + 32) else c)"

definition lower :: "string \<Rightarrow> string" where
  "lower s = map lower_char s"

text \<open>A board object: its class and the USB port it was built for.\<close>

datatype xsboard = Board board_class nat

text \<open>
  \<^verbatim>\<open>c(xsusb_id)\<close>: the constructors build the USB, JTAG, microcontroller and FPGA
  interfaces, any of which may raise.
\<close>

definition new :: "device \<Rightarrow> board_class \<Rightarrow> nat \<Rightarrow> trace \<Rightarrow> (exn + xsboard) \<times> trace" where
  "new dev c i tr =
     ((case new_reply dev tr c i of None \<Rightarrow> Inr (Board c i) | Some e \<Rightarrow> Inl e),
      tr @ [New c i])"

text \<open>\<^verbatim>\<open>self.fpga.is_connected()\<close>\<close>

definition fpga_is_connected :: "device \<Rightarrow> board_class \<Rightarrow> trace \<Rightarrow> (exn + bool) \<times> trace" where
  "fpga_is_connected dev c tr = (fpga_is_connected_reply dev tr c, tr @ [FpgaIsConnected c])"

text \<open>\<^verbatim>\<open>XulaMicro.is_connected\<close>, inherited by the four boards with an FPGA.\<close>

definition XulaMicro_is_connected ::
  "device \<Rightarrow> board_class \<Rightarrow> trace \<Rightarrow> (exn + bool) \<times> trace" where
  "XulaMicro_is_connected dev c tr =
     (case get_board_fmw_version dev tr of
        (Inl e, tr') \<Rightarrow> if is_XsError e then (Inr False, tr') else (Inl e, tr')
      | (Inr version, tr') \<Rightarrow>
          if version < 12 / 10 then (Inr False, tr')
          else if has_fpga c then fpga_is_connected dev c tr'
          else (Inr False, tr'))"

text \<open>\<^verbatim>\<open>XulaOldFmw.is_connected\<close>\<close>

definition XulaOldFmw_is_connected :: "device \<Rightarrow> trace \<Rightarrow> (exn + bool) \<times> trace" where
  "XulaOldFmw_is_connected dev tr =
     (case get_board_fmw_version dev tr of
        (Inl e, tr') \<Rightarrow> if is_XsError e then (Inr False, tr') else (Inl e, tr')
      | (Inr version, tr') \<Rightarrow> (Inr (version < 12 / 10), tr'))"

text \<open>\<^verbatim>\<open>XulaNoJtag.is_connected\<close>\<close>

definition XulaNoJtag_is_connected :: "device \<Rightarrow> trace \<Rightarrow> (exn + bool) \<times> trace" where
  "XulaNoJtag_is_connected dev tr =
     (case get_board_fmw_version dev tr of
        (Inl e, tr') \<Rightarrow> if is_XsError e then (Inr False, tr') else (Inl e, tr')
      | (Inr version, tr') \<Rightarrow> (Inr (version \<ge> 12 / 10), tr'))"

text \<open>Method dispatch of \<^verbatim>\<open>xsboard.is_connected()\<close> on the class of the object.\<close>

fun is_connected :: "device \<Rightarrow> xsboard \<Rightarrow> trace \<Rightarrow> (exn + bool) \<times> trace" where
  "is_connected dev (Board XulaOldFmw i) tr = XulaOldFmw_is_connected dev tr"
| "is_connected dev (Board XulaNoJtag i) tr = XulaNoJtag_is_connected dev tr"
| "is_connected dev (Board c i) tr = XulaMicro_is_connected dev c tr"

definition board_classes :: "board_class list" where
  "board_classes = [XulaOldFmw, Xula50, Xula200, Xula2lx25, Xula2lx9, XulaNoJtag]"

text \<open>
  The body of the \<^verbatim>\<open>try\<close> in the second loop of \<^verbatim>\<open>XsBoard.get_xsboard\<close> (lines 62
  to 64): build the class and ask the object whether it is connected. \<open>Inr (Some b)\<close>
  is the \<^verbatim>\<open>return xsboard\<close>, \<open>Inr None\<close> leaves the body without returning.
\<close>

definition probe_one ::
  "device \<Rightarrow> board_class \<Rightarrow> nat \<Rightarrow> trace \<Rightarrow> (exn + xsboard option) \<times> trace" where
  "probe_one dev c i tr =
     (case new dev c i tr of
        (Inl e, tr1) \<Rightarrow> (Inl e, tr1)
      | (Inr xsboard, tr1) \<Rightarrow>
          (case is_connected dev xsboard tr1 of
             (Inl e, tr2) \<Rightarrow> (Inl e, tr2)
           | (Inr connected', tr2) \<Rightarrow>
               (if connected' then (Inr (Some xsboard), tr2) else (Inr None, tr2))))"

text \<open>
  The second loop (lines 60 to 68): \<^verbatim>\<open>except XsError: pass\<close> goes on with the next
  class, any other exception leaves the function, and \<^verbatim>\<open>None\<close> is returned when the
  classes are used up.
\<close>

fun probe :: "device \<Rightarrow> nat \<Rightarrow> board_class list \<Rightarrow> trace \<Rightarrow> (exn + xsboard option) \<times> trace" where
  "probe dev i [] tr = (Inr None, tr)"
| "probe dev i (c # cs) tr =
     (case probe_one dev c i tr of
        (Inl e, tr') \<Rightarrow> if is_XsError e then probe dev i cs tr' else (Inl e, tr')
      | (Inr (Some xsboard), tr') \<Rightarrow> (Inr (Some xsboard), tr')
      | (Inr None, tr') \<Rightarrow> probe dev i cs tr')"

text \<open>
  \<^verbatim>\<open>XsBoard.get_xsboard\<close>. The first loop (lines 56 to 58) returns the object of the
  first class whose name is the requested one, whatever its construction raises.
\<close>

definition get_xsboard ::
  "device \<Rightarrow> nat option \<Rightarrow> string \<Rightarrow> trace \<Rightarrow> (exn + xsboard option) \<times> trace" where
  "get_xsboard dev xsusb_id xsboard_name tr =
     (case xsusb_id of
        None \<Rightarrow> (Inr None, tr)
      | Some i \<Rightarrow>
          (case find (\<lambda>c. lower xsboard_name = lower (name c)) board_classes of
             Some c \<Rightarrow>
               (case new dev c i tr of
                  (Inl e, tr') \<Rightarrow> (Inl e, tr')
                | (Inr xsboard, tr') \<Rightarrow> (Inr (Some xsboard), tr'))
           | None \<Rightarrow> probe dev i board_classes tr))"

section \<open>Workflows on a board\<close>

text \<open>
  What the workflows change: the configuration-flash flag kept by the microcontroller,
  the phases published so far with \<^verbatim>\<open>pub.sendMessage(_PHASE, phase=...)\<close>, and the
  calls made so far on the flag and on the configuration flash, in order.
\<close>

datatype flash_call =
    GetCfgFlashFlag
  | EnableCfgFlash
  | SetCfgFlashFlag nat
  | FlashRead nat nat
  | FlashErase
  | FlashWrite "byte list" "nat option" "nat option"

record board =
  cfg_flash_flag :: nat
  phases :: "string list"
  flash_calls :: "flash_call list"

definition send_phase :: "string \<Rightarrow> board \<Rightarrow> board" where
  "send_phase p s = s\<lparr>phases := phases s @ [p]\<rparr>"

definition note_call :: "flash_call \<Rightarrow> board \<Rightarrow> board" where
  "note_call c s = s\<lparr>flash_calls := flash_calls s @ [c]\<rparr>"

text \<open>The flag as \<^verbatim>\<open>XulaMicro.get_flash_flag\<close> reads it (line 187): enabled when not 0.\<close>

definition flash_enabled :: "board \<Rightarrow> bool" where
  "flash_enabled s = (cfg_flash_flag s \<noteq> 0)"

text \<open>
  Modelled from the spec: \<^verbatim>\<open>get_cfg_flash_flag\<close> of the microcontroller driver
  (\<^verbatim>\<open>xstools/picmicro.py\<close>, not part of the sources at hand) reads the stored
  flash-enable flag.
\<close>

definition micro_get_cfg_flash_flag :: "board \<Rightarrow> nat \<times> board" where
  "micro_get_cfg_flash_flag s = (cfg_flash_flag s, note_call GetCfgFlashFlag s)"

text \<open>
  Modelled from the spec: \<^verbatim>\<open>enable_cfg_flash\<close> of the microcontroller driver (not part
  of the sources at hand) forces the flag enabled. The flag reads as enabled when it is
  not zero (\<^verbatim>\<open>get_flash_flag\<close>, line 187); enabling stores 1.
\<close>

definition micro_enable_cfg_flash :: "board \<Rightarrow> board" where
  "micro_enable_cfg_flash s = note_call EnableCfgFlash (s\<lparr>cfg_flash_flag := 1\<rparr>)"

text \<open>
  Modelled from the spec: \<^verbatim>\<open>set_cfg_flash_flag\<close> of the microcontroller driver (not part
  of the sources at hand) stores the value given, which is how a saved flag is restored.
\<close>

definition micro_set_cfg_flash_flag :: "nat \<Rightarrow> board \<Rightarrow> board" where
  "micro_set_cfg_flash_flag flag s = note_call (SetCfgFlashFlag flag) (s\<lparr>cfg_flash_flag := flag\<rparr>)"

text \<open>
  The collaborators behind the JTAG port: loading a bitstream (the pulses on the
  programming line and \<^verbatim>\<open>self.fpga.configure\<close>) and the operations of the
  configuration flash. Each either returns or raises. The flag of the microcontroller
  decides whether the flash can be reached, so the flash answers as a function of
  whether it is enabled at the time of the call.
\<close>

record peripherals =
  fpga_configure_reply :: "string \<Rightarrow> exn option"
  flash_read_reply :: "bool \<Rightarrow> nat \<Rightarrow> nat \<Rightarrow> exn + byte list"
  flash_erase_reply :: "bool \<Rightarrow> exn option"
  flash_write_reply :: "bool \<Rightarrow> byte list \<Rightarrow> nat option \<Rightarrow> nat option \<Rightarrow> exn option"

text \<open>\<^verbatim>\<open>self.cfg_flash.read(bottom, top)\<close>\<close>

definition flash_read :: "peripherals \<Rightarrow> nat \<Rightarrow> nat \<Rightarrow> board \<Rightarrow> (exn + byte list) \<times> board" where
  "flash_read per bottom top' s =
     (flash_read_reply per (flash_enabled s) bottom top', note_call (FlashRead bottom top') s)"

text \<open>\<^verbatim>\<open>self.cfg_flash.erase()\<close>\<close>

definition flash_erase :: "peripherals \<Rightarrow> board \<Rightarrow> (exn + unit) \<times> board" where
  "flash_erase per s =
     ((case flash_erase_reply per (flash_enabled s) of None \<Rightarrow> Inr () | Some e \<Rightarrow> Inl e),
      note_call FlashErase s)"

text \<open>\<^verbatim>\<open>self.cfg_flash.write(hexfile, bottom, top)\<close>\<close>

definition flash_write ::
  "peripherals \<Rightarrow> byte list \<Rightarrow> nat option \<Rightarrow> nat option \<Rightarrow> board \<Rightarrow> (exn + unit) \<times> board" where
  "flash_write per hexfile bottom top' s =
     ((case flash_write_reply per (flash_enabled s) hexfile bottom top' of
         None \<Rightarrow> Inr () | Some e \<Rightarrow> Inl e),
      note_call (FlashWrite hexfile bottom top') s)"

text \<open>\<^verbatim>\<open>XulaBase.configure\<close>\<close>

definition configure :: "peripherals \<Rightarrow> string \<Rightarrow> board \<Rightarrow> (exn + unit) \<times> board" where
  "configure per bitstream s =
     (let s1 = send_phase ''Downloading bitstream'' s in
      case fpga_configure_reply per bitstream of
        Some e \<Rightarrow> (Inl e, s1)
      | None \<Rightarrow> (Inr (), send_phase ''Download complete'' s1))"

subsection \<open>\<^verbatim>\<open>XulaBase.do_self_test\<close>\<close>

record frame =
  progress :: "2 word"
  failed :: "1 word"
  signature :: "32 word"

definition BASE_SIGNATURE :: int where
  "BASE_SIGNATURE = 0xA50000A5"

definition SELF_TEST_SIGNATURE :: int where
  "SELF_TEST_SIGNATURE = BASE_SIGNATURE OR push_bit 8 1"

definition TEST_START :: int where "TEST_START = 0"
definition TEST_WRITE :: int where "TEST_WRITE = 1"
definition TEST_READ :: int where "TEST_READ = 2"
definition TEST_DONE :: int where "TEST_DONE = 3"

text \<open>
  The polling loop (lines 240 to 254) over the frames that successive calls of
  \<^verbatim>\<open>dut.read()\<close> deliver. The loop has no bound: when the frames at hand are used up
  and the loop has neither returned nor raised, the outcome is \<open>None\<close>, still polling.
\<close>

fun self_test_loop ::
  "string \<Rightarrow> int \<Rightarrow> frame list \<Rightarrow> board \<Rightarrow> (exn + unit) option \<times> board" where
  "self_test_loop nm prev_progress [] s = (None, s)"
| "self_test_loop nm prev_progress (f # fs) s =
     (if uint (signature f) \<noteq> SELF_TEST_SIGNATURE
      then (Some (Inl (XsMajorError
                  (nm @ ''FPGA is not configured with diagnostic bitstream.''))), s)
      else if uint (progress f) \<noteq> prev_progress then
        (let s1 = (if uint (progress f) = TEST_READ
                   then send_phase ''Reading SDRAM'' s else s)
         in if uint (failed f) = 1
            then (Some (Inl (XsMinorError (nm @ '' failed diagnostic test.''))),
                  send_phase ''Test Done'' s1)
            else if uint (progress f) = TEST_DONE
            then (Some (Inr ()), send_phase ''Test Done'' s1)
            else self_test_loop nm (uint (progress f)) fs s1)
      else self_test_loop nm (uint (progress f)) fs s)"

text \<open>
  \<open>nm\<close> is \<^verbatim>\<open>self.name\<close>, \<open>self_test_bitstream\<close> is \<^verbatim>\<open>self.test_bitstream\<close>. Opening
  the test channel and pulsing its reset are taken to return.
\<close>

definition do_self_test ::
  "peripherals \<Rightarrow> string \<Rightarrow> string \<Rightarrow> string option \<Rightarrow> frame list \<Rightarrow> board
     \<Rightarrow> (exn + unit) option \<times> board" where
  "do_self_test per nm self_test_bitstream test_bitstream frames s =
     (let bitstream = (case test_bitstream of None \<Rightarrow> self_test_bitstream | Some b \<Rightarrow> b);
          s1 = send_phase ''Downloading diagostic bitstream'' s
      in case configure per bitstream s1 of
           (Inl e, s2) \<Rightarrow> (Some (Inl e), s2)
         | (Inr _, s2) \<Rightarrow>
             self_test_loop nm TEST_START frames (send_phase ''Writing SDRAM'' s2))"

subsection \<open>Configuration flash: \<^verbatim>\<open>XulaBase\<close>\<close>

text \<open>
  \<^verbatim>\<open>create_cfg_flash\<close> only builds the handle on the flash and is taken to return.
\<close>

definition XulaBase_read_cfg_flash ::
  "peripherals \<Rightarrow> string \<Rightarrow> nat \<Rightarrow> nat \<Rightarrow> board \<Rightarrow> (exn + byte list) \<times> board" where
  "XulaBase_read_cfg_flash per cfg_flash_bitstream bottom top' s =
     (let s1 = send_phase ''Configuring FPGA for reading configuration flash'' s in
      case configure per cfg_flash_bitstream s1 of
        (Inl e, s2) \<Rightarrow> (Inl e, s2)
      | (Inr _, s2) \<Rightarrow>
          (let s3 = send_phase ''Reading configuration flash'' s2 in
           case flash_read per bottom top' s3 of
             (Inl e, s4) \<Rightarrow> (Inl e, s4)
           | (Inr hex_data, s4) \<Rightarrow>
               (Inr hex_data, send_phase ''Configuration flash read done'' s4)))"

definition XulaBase_write_cfg_flash ::
  "peripherals \<Rightarrow> string \<Rightarrow> byte list \<Rightarrow> nat option \<Rightarrow> nat option \<Rightarrow> board
     \<Rightarrow> (exn + unit) \<times> board" where
  "XulaBase_write_cfg_flash per cfg_flash_bitstream hexfile bottom top' s =
     (let s1 = send_phase ''Configuring FPGA for writing configuration flash'' s in
      case configure per cfg_flash_bitstream s1 of
        (Inl e, s2) \<Rightarrow> (Inl e, s2)
      | (Inr _, s2) \<Rightarrow>
          (let s3 = send_phase ''Erasing configuration flash'' s2 in
           case flash_erase per s3 of
             (Inl e, s4) \<Rightarrow> (Inl e, s4)
           | (Inr _, s4) \<Rightarrow>
               (let s5 = send_phase ''Writing configuration flash'' s4 in
                case flash_write per hexfile bottom top' s5 of
                  (Inl e, s6) \<Rightarrow> (Inl e, s6)
                | (Inr _, s6) \<Rightarrow>
                    (Inr (), send_phase ''Configuration flash write done'' s6))))"

definition XulaBase_erase_cfg_flash ::
  "peripherals \<Rightarrow> string \<Rightarrow> nat option \<Rightarrow> nat option \<Rightarrow> board \<Rightarrow> (exn + unit) \<times> board" where
  "XulaBase_erase_cfg_flash per cfg_flash_bitstream bottom top' s =
     (let s1 = send_phase ''Configuring FPGA for erasing configuration flash'' s in
      case configure per cfg_flash_bitstream s1 of
        (Inl e, s2) \<Rightarrow> (Inl e, s2)
      | (Inr _, s2) \<Rightarrow>
          (let s3 = send_phase ''Erasing configuration flash'' s2 in
           case flash_erase per s3 of
             (Inl e, s4) \<Rightarrow> (Inl e, s4)
           | (Inr _, s4) \<Rightarrow>
               (Inr (), send_phase ''Configuration flash erase done'' s4)))"

subsection \<open>Configuration flash: \<^verbatim>\<open>Xula\<close>\<close>

text \<open>
  The three methods of \<^verbatim>\<open>Xula\<close> (lines 326 to 343) save the flag, enable the flash,
  run the method of \<^verbatim>\<open>XulaBase\<close> and write the saved flag back. There is no
  \<^verbatim>\<open>try\<close> around the call: an exception leaves the method before the flag is written
  back. \<open>saved_flag\<close> is the local variable \<^verbatim>\<open>cfg_flash_flag\<close>.
\<close>

definition Xula_read_cfg_flash ::
  "peripherals \<Rightarrow> string \<Rightarrow> nat \<Rightarrow> nat \<Rightarrow> board \<Rightarrow> (exn + byte list) \<times> board" where
  "Xula_read_cfg_flash per cfg_flash_bitstream bottom top' s =
     (case micro_get_cfg_flash_flag s of
        (saved_flag, s0) \<Rightarrow>
          (let s1 = micro_enable_cfg_flash s0
           in case XulaBase_read_cfg_flash per cfg_flash_bitstream bottom top' s1 of
                (Inl e, s2) \<Rightarrow> (Inl e, s2)
              | (Inr data, s2) \<Rightarrow> (Inr data, micro_set_cfg_flash_flag saved_flag s2)))"

definition Xula_write_cfg_flash ::
  "peripherals \<Rightarrow> string \<Rightarrow> byte list \<Rightarrow> nat option \<Rightarrow> nat option \<Rightarrow> board
     \<Rightarrow> (exn + unit) \<times> board" where
  "Xula_write_cfg_flash per cfg_flash_bitstream hexfile bottom top' s =
     (case micro_get_cfg_flash_flag s of
        (saved_flag, s0) \<Rightarrow>
          (let s1 = micro_enable_cfg_flash s0
           in case XulaBase_write_cfg_flash per cfg_flash_bitstream hexfile bottom top' s1 of
                (Inl e, s2) \<Rightarrow> (Inl e, s2)
              | (Inr _, s2) \<Rightarrow> (Inr (), micro_set_cfg_flash_flag saved_flag s2)))"

definition Xula_erase_cfg_flash ::
  "peripherals \<Rightarrow> string \<Rightarrow> nat option \<Rightarrow> nat option \<Rightarrow> board \<Rightarrow> (exn + unit) \<times> board" where
  "Xula_erase_cfg_flash per cfg_flash_bitstream bottom top' s =
     (case micro_get_cfg_flash_flag s of
        (saved_flag, s0) \<Rightarrow>
          (let s1 = micro_enable_cfg_flash s0
           in case XulaBase_erase_cfg_flash per cfg_flash_bitstream bottom top' s1 of
                (Inl e, s2) \<Rightarrow> (Inl e, s2)
              | (Inr _, s2) \<Rightarrow> (Inr (), micro_set_cfg_flash_flag saved_flag s2)))"

section \<open>Sample devices\<close>

text \<open>
  A link whose first fetch of the information frame answers \<open>first\<close> and every later
  one \<open>second\<close>; resets answer \<open>rst\<close>; every constructor returns and every FPGA
  reports itself connected.
\<close>

definition flaky_link :: "(exn + byte list) \<Rightarrow> exn option \<Rightarrow> (exn + byte list) \<Rightarrow> device" where
  "flaky_link first rst second =
     \<lparr>new_reply = (\<lambda>tr c i. None),
      get_info_reply = (\<lambda>tr. if GetInfo \<in> set tr then second else first),
      reset_reply = (\<lambda>tr. rst),
      fpga_is_connected_reply = (\<lambda>tr c. Inr True)\<rparr>"

text \<open>
  A board that always delivers the frame \<open>info\<close>; constructing a class answers
  \<open>ctor c\<close> and the FPGA of class \<open>c\<close> answers \<open>fpga c\<close>.
\<close>

definition steady_link ::
  "byte list \<Rightarrow> (board_class \<Rightarrow> exn option) \<Rightarrow> (board_class \<Rightarrow> exn + bool) \<Rightarrow> device" where
  "steady_link info ctor fpga =
     \<lparr>new_reply = (\<lambda>tr c i. ctor c),
      get_info_reply = (\<lambda>tr. Inr info),
      reset_reply = (\<lambda>tr. None),
      fpga_is_connected_reply = (\<lambda>tr c. fpga c)\<rparr>"

text \<open>Information frames with checksum 0: firmware 1.5 and firmware 1.1.\<close>

definition frame_v1_5 :: "byte list" where
  "frame_v1_5 = [116, 1, 2, 1, 5, 0x41, 0x42, 0]"

definition frame_v1_1 :: "byte list" where
  "frame_v1_1 = [120, 1, 2, 1, 1, 0x41, 0x42, 0]"

text \<open>
  Peripherals whose flash answers when it is enabled and raises when it is not, and
  ones whose flash raises in any case.
\<close>

definition good_peripherals :: peripherals where
  "good_peripherals =
     \<lparr>fpga_configure_reply = (\<lambda>b. None),
      flash_read_reply =
        (\<lambda>enabled bottom top'.
           if enabled then Inr [1, 2, 3] else Inl (XsMajorError ''flash disabled'')),
      flash_erase_reply =
        (\<lambda>enabled. if enabled then None else Some (XsMajorError ''flash disabled'')),
      flash_write_reply =
        (\<lambda>enabled hexfile bottom top'.
           if enabled then None else Some (XsMajorError ''flash disabled''))\<rparr>"

definition bad_flash :: peripherals where
  "bad_flash =
     \<lparr>fpga_configure_reply = (\<lambda>b. None),
      flash_read_reply = (\<lambda>enabled bottom top'. Inl (XsMajorError ''flash'')),
      flash_erase_reply = (\<lambda>enabled. Some (XsMajorError ''flash'')),
      flash_write_reply = (\<lambda>enabled hexfile bottom top'. Some (XsMajorError ''flash''))\<rparr>"

definition ok_frame :: "2 word \<Rightarrow> 1 word \<Rightarrow> frame" where
  "ok_frame p f = \<lparr>progress = p, failed = f, signature = 0xA50001A5\<rparr>"

definition fresh_board :: "nat \<Rightarrow> board" where
  "fresh_board flag = \<lparr>cfg_flash_flag = flag, phases = [], flash_calls = []\<rparr>"

text \<open>
  A board with firmware 1.5 on which the FPGA of a XuLA-50 answers the connectivity
  check with a fatal error, and a port on which no interface can be built.
\<close>

definition fatal_on_Xula50 :: device where
  "fatal_on_Xula50 =
     steady_link frame_v1_5 (\<lambda>c. None)
       (\<lambda>c. if c = Xula50 then Inl (XsMajorError ''jtag'') else Inr True)"

definition no_usb :: device where
  "no_usb = steady_link frame_v1_5 (\<lambda>c. Some (XsMajorError ''usb'')) (\<lambda>c. Inr True)"

section \<open>Properties of \<^verbatim>\<open>get_board_info\<close>\<close>

lemma char_of_A: "char_of (65::nat) = CHR ''A''"
  by code_simp

lemma char_of_B: "char_of (66::nat) = CHR ''B''"
  by code_simp

lemma get_board_info_fetched:
  "fst (fetch_info dev tr) = Inr info \<Longrightarrow> fst (get_board_info dev tr) = parse_info info"
  by (cases "fetch_info dev tr") (auto simp: get_board_info_def split: sum.splits)

lemma fetch_info_first:
  "get_info_reply dev tr = Inr info \<Longrightarrow> fetch_info dev tr = (Inr info, tr @ [GetInfo])"
  by (simp add: fetch_info_def xsusb_get_info_def)

lemma first_index_None: "first_index xs x = None \<longleftrightarrow> x \<notin> set xs"
  by (induction xs) auto

lemma parse_info_v1_5:
  assumes "sum_list (map unat (b0 # [1, 2, 1, 5, 0x41, 0x42, 0] @ rest)) mod 256 = 0"
  shows "parse_info (b0 # [1, 2, 1, 5, 0x41, 0x42, 0] @ rest) =
           Inr (Map.empty(''ID'' \<mapsto> ''0102'', ''VERSION'' \<mapsto> ''1.5'',
                          ''DESCRIPTION'' \<mapsto> ''AB''))"
  using assms
  by (simp add: parse_info_def item_def index_def tostring_def fmt_02x_def fmt_d_def
      hex_of_nat.simps dec_of_nat.simps digit_char_def char_of_A char_of_B)

text \<open>
  C4. Whenever the frame that \<open>get_board_info\<close> has fetched has a byte sum that is
  not 0 modulo 256, the call raises the recoverable error "XESS board information is
  corrupted." and returns no board information; that error is not the fatal "Unable to
  get XESS board information." of a failed transfer.
\<close>

theorem corrupted_frame_raises_minor_error:
  assumes "fst (fetch_info dev tr) = Inr info"
    and "sum_list (map unat info) mod 256 \<noteq> 0"
  shows "fst (get_board_info dev tr)
           = Inl (XsMinorError ''XESS board information is corrupted.'')
       \<and> (\<forall>board_info. fst (get_board_info dev tr) \<noteq> Inr board_info)
       \<and> is_recoverable (XsMinorError ''XESS board information is corrupted.'')
       \<and> \<not> is_fatal (XsMinorError ''XESS board information is corrupted.'')
       \<and> XsMinorError ''XESS board information is corrupted.''
            \<noteq> XsMajorError ''Unable to get XESS board information.''"
  using assms by (simp add: get_board_info_fetched parse_info_def)

theorem corrupted_frame_raises_minor_error_witness:
  "fst (fetch_info (flaky_link (Inr [1, 2]) None (Inr [])) []) = Inr [1, 2]
   \<and> sum_list (map unat [1, 2 :: byte]) mod 256 \<noteq> 0
   \<and> fst (get_board_info (flaky_link (Inr [1, 2]) None (Inr [])) [])
       = Inl (XsMinorError ''XESS board information is corrupted.'')"
proof -
  have f: "fst (fetch_info (flaky_link (Inr [1, 2]) None (Inr [])) []) = Inr [1, 2]"
    by (simp add: fetch_info_first flaky_link_def)
  have c: "sum_list (map unat [1, 2 :: byte]) mod 256 \<noteq> 0"
    by simp
  from corrupted_frame_raises_minor_error [OF f c] f c show ?thesis
    by simp
qed

text \<open>
  C5, as the code has it. When the first fetch raises a hardware error,
  \<open>get_board_info\<close> calls the reset exactly once and, if the reset returns, fetches
  exactly once more; no other call is made. A hardware error of the reset or of the
  second fetch raises the fatal "Unable to get XESS board information.".
\<close>

theorem one_reset_and_at_most_one_retry:
  assumes "get_info_reply dev tr = Inl e1" and "is_XsError e1"
  shows "snd (get_board_info dev tr)
           = tr @ [GetInfo, Reset]
                @ (if reset_reply dev (tr @ [GetInfo]) = None then [GetInfo] else [])
       \<and> ((reset_reply dev (tr @ [GetInfo]) = Some e2
            \<or> (reset_reply dev (tr @ [GetInfo]) = None
                \<and> get_info_reply dev (tr @ [GetInfo, Reset]) = Inl e2))
           \<and> is_XsError e2
           \<longrightarrow> fst (get_board_info dev tr)
                 = Inl (XsMajorError ''Unable to get XESS board information.''))"
  using assms
  by (auto simp add: get_board_info_def fetch_info_def xsusb_get_info_def reset_def
      split: sum.splits option.splits)

theorem one_reset_and_at_most_one_retry_witness:
  "get_board_info
     (flaky_link (Inl (XsMinorError ''usb'')) None (Inl (XsMinorError ''usb''))) []
     = (Inl (XsMajorError ''Unable to get XESS board information.''),
        [GetInfo, Reset, GetInfo])"
proof -
  let ?dev = "flaky_link (Inl (XsMinorError ''usb'')) None (Inl (XsMinorError ''usb''))"
  have a: "get_info_reply ?dev [] = Inl (XsMinorError ''usb'')"
    by (simp add: flaky_link_def)
  have b: "is_XsError (XsMinorError ''usb'')"
    by simp
  have c: "reset_reply ?dev ([] @ [GetInfo]) = None"
    by (simp add: flaky_link_def)
  have d: "get_info_reply ?dev ([] @ [GetInfo, Reset]) = Inl (XsMinorError ''usb'')"
    by (simp add: flaky_link_def)
  from one_reset_and_at_most_one_retry [OF a b, of "XsMinorError ''usb''"] b c d
  show ?thesis
    by (simp add: prod_eq_iff)
qed

text \<open>
  C5 as it is stated fails when the reset itself raises: the first fetch has failed,
  one reset is issued, and the fatal error is raised without any second fetch.
\<close>

theorem failed_reset_has_no_retry:
  "get_info_reply (flaky_link (Inl (XsMinorError ''usb'')) (Some (XsMajorError ''usb''))
       (Inr frame_v1_5)) [] = Inl (XsMinorError ''usb'')
   \<and> get_board_info (flaky_link (Inl (XsMinorError ''usb'')) (Some (XsMajorError ''usb''))
       (Inr frame_v1_5)) []
     = (Inl (XsMajorError ''Unable to get XESS board information.''), [GetInfo, Reset])"
  by (simp add: get_board_info_def fetch_info_def xsusb_get_info_def reset_def
      flaky_link_def)

text \<open>
  C7. A fetched frame with checksum 0 whose bytes 1 to 7 are 0x01, 0x02, 0x01, 0x05,
  'A', 'B', 0 gives the identifier "0102", the version "1.5" and the description "AB",
  whatever the first byte is and whatever follows the terminator.
\<close>

theorem info_frame_fields:
  assumes "fst (fetch_info dev tr) = Inr (b0 # [1, 2, 1, 5, 0x41, 0x42, 0] @ rest)"
    and "sum_list (map unat (b0 # [1, 2, 1, 5, 0x41, 0x42, 0] @ rest)) mod 256 = 0"
  shows "fst (get_board_info dev tr) =
           Inr (Map.empty(''ID'' \<mapsto> ''0102'', ''VERSION'' \<mapsto> ''1.5'',
                          ''DESCRIPTION'' \<mapsto> ''AB''))"
proof -
  from assms(1) have "fst (get_board_info dev tr)
      = parse_info (b0 # [1, 2, 1, 5, 0x41, 0x42, 0] @ rest)"
    by (rule get_board_info_fetched)
  also from assms(2) have "\<dots> = Inr (Map.empty(''ID'' \<mapsto> ''0102'',
      ''VERSION'' \<mapsto> ''1.5'', ''DESCRIPTION'' \<mapsto> ''AB''))"
    by (rule parse_info_v1_5)
  finally show ?thesis .
qed

theorem info_frame_fields_witness:
  "fst (get_board_info (flaky_link (Inr frame_v1_5) None (Inr frame_v1_5)) []) =
     Inr (Map.empty(''ID'' \<mapsto> ''0102'', ''VERSION'' \<mapsto> ''1.5'',
                    ''DESCRIPTION'' \<mapsto> ''AB''))"
proof -
  let ?dev = "flaky_link (Inr frame_v1_5) None (Inr frame_v1_5)"
  have f: "fst (fetch_info ?dev []) = Inr (116 # [1, 2, 1, 5, 0x41, 0x42, 0] @ [])"
    by (simp add: fetch_info_first flaky_link_def frame_v1_5_def)
  have c: "sum_list (map unat ((116 :: byte) # [1, 2, 1, 5, 0x41, 0x42, 0] @ [])) mod 256 = 0"
    by simp
  from info_frame_fields [OF f c] show ?thesis .
qed

text \<open>
  C8, as the code has it. A fetched frame that passes the checksum and has no zero
  byte from offset 5 on makes \<open>get_board_info\<close> raise Python's \<^verbatim>\<open>ValueError\<close>, from
  the search for the terminator (or \<^verbatim>\<open>IndexError\<close> when the frame has fewer than five
  bytes). Neither is a hardware error, fatal or recoverable; no board information is
  returned.
\<close>

theorem unterminated_description_raises_ValueError:
  assumes "fst (fetch_info dev tr) = Inr info"
    and "sum_list (map unat info) mod 256 = 0"
    and "0 \<notin> set (drop 5 info)"
  shows "fst (get_board_info dev tr)
           = Inl (if length info < 5 then IndexError else ValueError)
       \<and> \<not> is_XsError (if length info < 5 then IndexError else ValueError)
       \<and> \<not> is_fatal (if length info < 5 then IndexError else ValueError)"
  using assms
  by (auto simp add: get_board_info_fetched parse_info_def item_def index_def
      first_index_None [THEN iffD2])

theorem unterminated_description_raises_ValueError_witness:
  "fst (get_board_info (flaky_link (Inr [0, 0, 0, 0, 0, 1, 255]) None (Inr [])) [])
     = Inl ValueError"
proof -
  let ?dev = "flaky_link (Inr [0, 0, 0, 0, 0, 1, 255]) None (Inr [])"
  have f: "fst (fetch_info ?dev []) = Inr [0, 0, 0, 0, 0, 1, 255]"
    by (simp add: fetch_info_first flaky_link_def)
  have c: "sum_list (map unat [0, 0, 0, 0, 0, 1, 255 :: byte]) mod 256 = 0"
    by simp
  have z: "(0 :: byte) \<notin> set (drop 5 [0, 0, 0, 0, 0, 1, 255])"
    by simp
  from unterminated_description_raises_ValueError [OF f c z] show ?thesis
    by simp
qed

text \<open>
  C8 as it is stated fails: the frame 0, 0, 0, 0, 0, 1, 255 passes the checksum and has
  no terminator, and the exception that leaves \<open>get_board_info\<close> is a \<^verbatim>\<open>ValueError\<close>,
  which is neither of the two hardware error kinds.
\<close>

theorem unterminated_description_is_not_fatal:
  "sum_list (map unat [0, 0, 0, 0, 0, 1, 255 :: byte]) mod 256 = 0
   \<and> (0 :: byte) \<notin> set (drop 5 [0, 0, 0, 0, 0, 1, 255])
   \<and> fst (get_board_info (steady_link [0, 0, 0, 0, 0, 1, 255] (\<lambda>c. None) (\<lambda>c. Inr True)) [])
       = Inl ValueError
   \<and> \<not> is_fatal ValueError \<and> \<not> is_recoverable ValueError \<and> \<not> is_XsError ValueError"
  by (simp add: get_board_info_def fetch_info_first steady_link_def parse_info_def item_def
      index_def)

section \<open>Properties of \<^verbatim>\<open>do_self_test\<close>\<close>


lemma SELF_TEST_SIGNATURE_value: "SELF_TEST_SIGNATURE = 0xA50001A5"
  by (simp add: SELF_TEST_SIGNATURE_def BASE_SIGNATURE_def)

lemma self_test_loop_append:
  "fst (self_test_loop nm p pre s) = None \<Longrightarrow>
   self_test_loop nm p (pre @ fs) s =
     self_test_loop nm (if pre = [] then p else uint (progress (last pre))) fs
       (snd (self_test_loop nm p pre s))"
proof (induction pre arbitrary: p s)
  case Nil
  then show ?case by simp
next
  case (Cons f pre)
  then show ?case
    by (cases "pre = []") (auto simp add: Let_def split: if_splits)
qed

lemma polling_not_done:
  "fst (self_test_loop nm p pre s) = None \<Longrightarrow> p \<noteq> TEST_DONE \<Longrightarrow>
   (if pre = [] then p else uint (progress (last pre))) \<noteq> TEST_DONE"
proof (induction pre arbitrary: p s)
  case Nil
  then show ?case by simp
next
  case (Cons f pre)
  then show ?case
    by (cases "pre = []") (auto simp add: Let_def split: if_splits)
qed

lemma self_test_loop_success:
  "fst (self_test_loop nm p fs s) = Some (Inr ()) \<Longrightarrow>
   \<exists>pre f rest. fs = pre @ f # rest \<and> fst (self_test_loop nm p pre s) = None
      \<and> uint (signature f) = SELF_TEST_SIGNATURE \<and> uint (progress f) = TEST_DONE
      \<and> uint (failed f) \<noteq> 1"
proof (induction fs arbitrary: p s)
  case Nil
  then show ?case by simp
next
  case (Cons f fs)
  show ?case
  proof (cases "uint (signature f) = SELF_TEST_SIGNATURE \<and> uint (progress f) = TEST_DONE
      \<and> uint (failed f) \<noteq> 1")
    case True
    then have "f # fs = [] @ f # fs \<and> fst (self_test_loop nm p [] s) = None
      \<and> uint (signature f) = SELF_TEST_SIGNATURE \<and> uint (progress f) = TEST_DONE
      \<and> uint (failed f) \<noteq> 1" by simp
    then show ?thesis by blast
  next
    case False
    define s1 where "s1 = (if uint (progress f) \<noteq> p \<and> uint (progress f) = TEST_READ
                   then send_phase ''Reading SDRAM'' s else s)"
    from False Cons.prems
    have step: "self_test_loop nm p (f # fs) s = self_test_loop nm (uint (progress f)) fs s1"
      and sig: "uint (signature f) = SELF_TEST_SIGNATURE"
      and cont: "uint (progress f) \<noteq> p \<longrightarrow> uint (failed f) \<noteq> 1 \<and> uint (progress f) \<noteq> TEST_DONE"
      by (auto simp add: Let_def s1_def split: if_splits)
    with Cons.prems have "fst (self_test_loop nm (uint (progress f)) fs s1) = Some (Inr ())"
      by simp
    from Cons.IH [OF this] obtain pre g rest where
      fs: "fs = pre @ g # rest" and
      pre: "fst (self_test_loop nm (uint (progress f)) pre s1) = None" and
      g: "uint (signature g) = SELF_TEST_SIGNATURE" "uint (progress g) = TEST_DONE" "uint (failed g) \<noteq> 1"
      by blast
    from sig cont pre have "fst (self_test_loop nm p (f # pre) s) = None"
      by (auto simp add: Let_def s1_def split: if_splits)
    with fs g have "f # fs = (f # pre) @ g # rest \<and> fst (self_test_loop nm p (f # pre) s) = None
      \<and> uint (signature g) = SELF_TEST_SIGNATURE \<and> uint (progress g) = TEST_DONE
      \<and> uint (failed g) \<noteq> 1" by simp
    then show ?thesis by blast
  qed
qed

lemma do_self_test_loop:
  "fpga_configure_reply per (case tb of None \<Rightarrow> sb | Some b \<Rightarrow> b) = None \<Longrightarrow>
   do_self_test per nm sb tb fs s =
     self_test_loop nm TEST_START fs
       (send_phase ''Writing SDRAM'' (send_phase ''Download complete''
         (send_phase ''Downloading bitstream''
           (send_phase ''Downloading diagostic bitstream'' s))))"
  by (simp add: do_self_test_def configure_def Let_def)

lemma do_self_test_configure_fails:
  "fpga_configure_reply per (case tb of None \<Rightarrow> sb | Some b \<Rightarrow> b) = Some e \<Longrightarrow>
   fst (do_self_test per nm sb tb fs s) = Some (Inl e)"
  by (simp add: do_self_test_def configure_def Let_def)

lemma do_self_test_polling:
  assumes "fst (do_self_test per nm sb tb pre s) = None"
  shows "fpga_configure_reply per (case tb of None \<Rightarrow> sb | Some b \<Rightarrow> b) = None"
proof (cases "fpga_configure_reply per (case tb of None \<Rightarrow> sb | Some b \<Rightarrow> b)")
  case None
  then show ?thesis .
next
  case (Some e)
  from do_self_test_configure_fails [OF this, of nm pre s] assms show ?thesis by simp
qed

lemma do_self_test_append:
  assumes "fst (do_self_test per nm sb tb pre s) = None"
  shows "do_self_test per nm sb tb (pre @ fs) s =
     self_test_loop nm (if pre = [] then TEST_START else uint (progress (last pre))) fs
       (snd (do_self_test per nm sb tb pre s))"
proof -
  note c = do_self_test_polling [OF assms]
  from assms show ?thesis
    unfolding do_self_test_loop [OF c] by (rule self_test_loop_append)
qed

lemma do_self_test_not_done:
  assumes "fst (do_self_test per nm sb tb pre s) = None"
  shows "(if pre = [] then TEST_START else uint (progress (last pre))) \<noteq> TEST_DONE"
proof -
  note c = do_self_test_polling [OF assms]
  have "TEST_START \<noteq> TEST_DONE" by (simp add: TEST_START_def TEST_DONE_def)
  with assms show ?thesis
    unfolding do_self_test_loop [OF c] by (rule polling_not_done)
qed

text \<open>
  C3. At every poll that \<open>do_self_test\<close> reaches (it is still polling after the frames
  \<open>pre\<close>), a frame whose signature is not the expected constant raises the fatal
  "FPGA is not configured with diagnostic bitstream." on that poll, whatever the
  progress and failure fields of the frame are, whatever was polled before, and whatever
  would be polled later; nothing is published on that poll.
\<close>

theorem bad_signature_is_fatal:
  assumes "fst (do_self_test per nm sb tb pre s) = None"
    and "uint (signature f) \<noteq> SELF_TEST_SIGNATURE"
  shows "do_self_test per nm sb tb (pre @ f # rest) s =
           (Some (Inl (XsMajorError (nm @ ''FPGA is not configured with diagnostic bitstream.''))),
            snd (do_self_test per nm sb tb pre s))"
  using assms(2) by (simp add: do_self_test_append [OF assms(1)])

theorem bad_signature_is_fatal_witness:
  "fst (do_self_test good_peripherals ''XuLA-50'' ''test_board_jtag_50.bit'' None
         ([ok_frame 1 0] @ \<lparr>progress = 2, failed = 0, signature = 0xA50000A5\<rparr> # [ok_frame 3 0])
         (fresh_board 0))
     = Some (Inl (XsMajorError ''XuLA-50FPGA is not configured with diagnostic bitstream.''))"
proof -
  have a: "fst (do_self_test good_peripherals ''XuLA-50'' ''test_board_jtag_50.bit'' None
         [ok_frame 1 0] (fresh_board 0)) = None"
    by code_simp
  have b: "uint (signature \<lparr>progress = 2, failed = 0, signature = 0xA50000A5\<rparr>)
       \<noteq> SELF_TEST_SIGNATURE"
    by (simp add: SELF_TEST_SIGNATURE_value)
  from bad_signature_is_fatal [OF a b, of "[ok_frame 3 0]"] show ?thesis
    by simp
qed

text \<open>
  C2, as the code has it. \<open>do_self_test\<close> returns normally if and only if it reaches
  a poll with the expected signature, progress \<^verbatim>\<open>TEST_DONE\<close> and \<open>failed\<close> not set.
  A reached poll with the expected signature and \<open>failed\<close> set ends the test with the
  recoverable "failed diagnostic test." error, after publishing "Test Done", when its
  progress differs from the progress of the poll before it (\<^verbatim>\<open>TEST_START\<close> before the
  first poll). A reached poll whose progress is that of the poll before it is passed
  over, whatever its \<open>failed\<close> field says, and polling goes on.
\<close>

theorem self_test_outcome:
  "(fst (do_self_test per nm sb tb fs s) = Some (Inr ()) \<longleftrightarrow>
      (\<exists>pre f rest. fs = pre @ f # rest
          \<and> fst (do_self_test per nm sb tb pre s) = None
          \<and> uint (signature f) = SELF_TEST_SIGNATURE
          \<and> uint (progress f) = TEST_DONE \<and> uint (failed f) \<noteq> 1))
   \<and> (fst (do_self_test per nm sb tb pre s) = None
        \<and> uint (signature g) = SELF_TEST_SIGNATURE \<and> uint (failed g) = 1
        \<and> uint (progress g) \<noteq> (if pre = [] then TEST_START else uint (progress (last pre)))
      \<longrightarrow> fst (do_self_test per nm sb tb (pre @ g # rest) s)
             = Some (Inl (XsMinorError (nm @ '' failed diagnostic test.'')))
          \<and> phases (snd (do_self_test per nm sb tb (pre @ g # rest) s))
             = phases (snd (do_self_test per nm sb tb pre s))
               @ (if uint (progress g) = TEST_READ then [''Reading SDRAM''] else [])
               @ [''Test Done''])
   \<and> (fst (do_self_test per nm sb tb pre s) = None
        \<and> uint (signature g) = SELF_TEST_SIGNATURE 
        \<and> uint (progress g) = (if pre = [] then TEST_START else uint (progress (last pre)))
      \<longrightarrow> do_self_test per nm sb tb (pre @ [g]) s = do_self_test per nm sb tb pre s)"
  (is "?A \<and> ?B \<and> ?C")
proof (intro conjI)
  show ?A
  proof
    assume ok: "fst (do_self_test per nm sb tb fs s) = Some (Inr ())"
    have c: "fpga_configure_reply per (case tb of None \<Rightarrow> sb | Some b \<Rightarrow> b) = None"
    proof (cases "fpga_configure_reply per (case tb of None \<Rightarrow> sb | Some b \<Rightarrow> b)")
      case None
      then show ?thesis .
    next
      case (Some e)
      from do_self_test_configure_fails [OF this, of nm fs s] ok show ?thesis by simp
    qed
    from ok show "\<exists>pre f rest. fs = pre @ f # rest
          \<and> fst (do_self_test per nm sb tb pre s) = None
          \<and> uint (signature f) = SELF_TEST_SIGNATURE
          \<and> uint (progress f) = TEST_DONE \<and> uint (failed f) \<noteq> 1"
      unfolding do_self_test_loop [OF c] by (rule self_test_loop_success)
  next
    assume "\<exists>pre f rest. fs = pre @ f # rest
          \<and> fst (do_self_test per nm sb tb pre s) = None
          \<and> uint (signature f) = SELF_TEST_SIGNATURE
          \<and> uint (progress f) = TEST_DONE \<and> uint (failed f) \<noteq> 1"
    then obtain pre f rest where fs: "fs = pre @ f # rest"
      and pre: "fst (do_self_test per nm sb tb pre s) = None"
      and f: "uint (signature f) = SELF_TEST_SIGNATURE" "uint (progress f) = TEST_DONE"
        "uint (failed f) \<noteq> 1"
      by blast
    from do_self_test_not_done [OF pre] f
    show "fst (do_self_test per nm sb tb fs s) = Some (Inr ())"
      by (simp add: fs do_self_test_append [OF pre] Let_def)
  qed
next
  show ?B
  proof (intro impI, elim conjE)
    assume pre: "fst (do_self_test per nm sb tb pre s) = None"
      and g: "uint (signature g) = SELF_TEST_SIGNATURE" "uint (failed g) = 1"
        "uint (progress g) \<noteq> (if pre = [] then TEST_START else uint (progress (last pre)))"
    from g show "fst (do_self_test per nm sb tb (pre @ g # rest) s)
             = Some (Inl (XsMinorError (nm @ '' failed diagnostic test.'')))
          \<and> phases (snd (do_self_test per nm sb tb (pre @ g # rest) s))
             = phases (snd (do_self_test per nm sb tb pre s))
               @ (if uint (progress g) = TEST_READ then [''Reading SDRAM''] else [])
               @ [''Test Done'']"
      by (simp add: do_self_test_append [OF pre] Let_def send_phase_def)
  qed
next
  show ?C
  proof (intro impI, elim conjE)
    assume pre: "fst (do_self_test per nm sb tb pre s) = None"
      and g: "uint (signature g) = SELF_TEST_SIGNATURE"
        "uint (progress g) = (if pre = [] then TEST_START else uint (progress (last pre)))"
    from g pre show "do_self_test per nm sb tb (pre @ [g]) s = do_self_test per nm sb tb pre s"
      by (simp add: do_self_test_append [OF pre] prod_eq_iff)
  qed
qed


theorem self_test_outcome_witness:
  "fst (do_self_test good_peripherals ''XuLA-50'' ''test_board_jtag_50.bit'' None
         ([ok_frame 1 0] @ ok_frame 2 1 # []) (fresh_board 0))
     = Some (Inl (XsMinorError ''XuLA-50 failed diagnostic test.''))
   \<and> do_self_test good_peripherals ''XuLA-50'' ''test_board_jtag_50.bit'' None
         ([ok_frame 1 0] @ [ok_frame 1 1]) (fresh_board 0)
     = do_self_test good_peripherals ''XuLA-50'' ''test_board_jtag_50.bit'' None
         [ok_frame 1 0] (fresh_board 0)
   \<and> fst (do_self_test good_peripherals ''XuLA-50'' ''test_board_jtag_50.bit'' None
         ([ok_frame 1 0] @ ok_frame 3 0 # []) (fresh_board 0))
     = Some (Inr ())"
proof -
  let ?run = "\<lambda>fs. do_self_test good_peripherals ''XuLA-50'' ''test_board_jtag_50.bit'' None
      fs (fresh_board 0)"
  note inst = self_test_outcome [of good_peripherals "''XuLA-50''" "''test_board_jtag_50.bit''"
      None _ "fresh_board 0" "[ok_frame 1 0]" _ "[]"]
  have a: "fst (?run [ok_frame 1 0]) = None"
    by code_simp
  have sg: "uint (signature (ok_frame p f)) = SELF_TEST_SIGNATURE" for p f
    by (simp add: ok_frame_def SELF_TEST_SIGNATURE_value)
  have b: "uint (failed (ok_frame 2 1)) = 1"
    "uint (progress (ok_frame 2 1))
       \<noteq> (if [ok_frame 1 0] = [] then TEST_START else uint (progress (last [ok_frame 1 0])))"
    by (simp_all add: ok_frame_def)
  have c: "uint (progress (ok_frame 1 1))
       = (if [ok_frame 1 0] = [] then TEST_START else uint (progress (last [ok_frame 1 0])))"
    by (simp add: ok_frame_def)
  have d: "uint (progress (ok_frame 3 0)) = TEST_DONE" "uint (failed (ok_frame 3 0)) \<noteq> 1"
    by (simp_all add: ok_frame_def TEST_DONE_def)
  from inst [of _ "ok_frame 2 1"] a sg b
  have 1: "fst (?run ([ok_frame 1 0] @ ok_frame 2 1 # []))
     = Some (Inl (XsMinorError ''XuLA-50 failed diagnostic test.''))"
    by simp
  from inst [of _ "ok_frame 1 1"] a sg c
  have 2: "?run ([ok_frame 1 0] @ [ok_frame 1 1]) = ?run [ok_frame 1 0]"
    by simp
  from a sg d
  have "\<exists>pre f rest. [ok_frame 1 0] @ ok_frame 3 0 # [] = pre @ f # rest
          \<and> fst (?run pre) = None
          \<and> uint (signature f) = SELF_TEST_SIGNATURE
          \<and> uint (progress f) = TEST_DONE \<and> uint (failed f) \<noteq> 1"
    by blast
  with inst [of "[ok_frame 1 0] @ ok_frame 3 0 # []" "ok_frame 1 1"]
  have 3: "fst (?run ([ok_frame 1 0] @ ok_frame 3 0 # [])) = Some (Inr ())"
    by blast
  from 1 2 3 show ?thesis
    by simp
qed

text \<open>
  C2 as it is stated fails: after progress \<^verbatim>\<open>TEST_WRITE\<close> has been seen, a poll with
  \<open>failed\<close> set and the same progress does not end the test, and the test goes on to
  return normally at a later poll.
\<close>

theorem failed_poll_can_be_ignored:
  "uint (failed (ok_frame 1 1)) = 1
   \<and> fst (do_self_test good_peripherals ''XuLA-50'' ''test_board_jtag_50.bit'' None
        [ok_frame 1 0, ok_frame 1 1] (fresh_board 0)) = None
   \<and> fst (do_self_test good_peripherals ''XuLA-50'' ''test_board_jtag_50.bit'' None
        [ok_frame 1 0, ok_frame 1 1, ok_frame 3 0] (fresh_board 0)) = Some (Inr ())"
  by code_simp

section \<open>Properties of \<^verbatim>\<open>get_xsboard\<close>\<close>

lemma probe_append:
  "probe dev i pre tr = (Inr None, tr1) \<Longrightarrow> probe dev i (pre @ cs) tr = probe dev i cs tr1"
proof (induction pre arbitrary: tr)
  case Nil
  then show ?case by simp
next
  case (Cons c pre)
  then show ?case
    by (cases "probe_one dev c i tr") (auto split: sum.splits option.splits if_splits)
qed

lemma empty_name_matches_nothing:
  "find (\<lambda>c. lower [] = lower (name c)) board_classes = None"
  by (simp add: board_classes_def lower_def Xula_name_def Xula2_name_def)

lemma find_first:
  "\<forall>d\<in>set pre. \<not> P d \<Longrightarrow> P c \<Longrightarrow> find P (pre @ c # cs) = Some c"
  by (induction pre) auto

lemma find_none: "\<forall>d\<in>set xs. \<not> P d \<Longrightarrow> find P xs = None"
  by (induction xs) auto

text \<open>
  C1, as the code has it. With no variant name and a port identifier, when probing has
  passed over the descriptors before \<open>c\<close> in the priority list and building or checking
  \<open>c\<close> raises \<open>e\<close>: if \<open>e\<close> is a hardware error, recoverable or fatal alike, \<open>c\<close> counts
  as "not this variant" and probing goes on with the descriptors after \<open>c\<close>; only an
  exception that is no hardware error ends the identification and reaches the caller.
\<close>

theorem probing_skips_every_XsError:
  assumes "board_classes = pre @ c # cs"
    and "probe dev i pre tr = (Inr None, tr1)"
    and "probe_one dev c i tr1 = (Inl e, tr2)"
  shows "get_xsboard dev (Some i) [] tr
           = (if is_XsError e then probe dev i cs tr2 else (Inl e, tr2))
       \<and> (is_fatal e \<or> is_recoverable e
            \<longrightarrow> get_xsboard dev (Some i) [] tr = probe dev i cs tr2)"
proof -
  have "get_xsboard dev (Some i) [] tr = probe dev i (pre @ c # cs) tr"
    by (simp add: get_xsboard_def empty_name_matches_nothing assms(1) [symmetric])
  also have "\<dots> = probe dev i (c # cs) tr1"
    using assms(2) by (rule probe_append)
  also have "\<dots> = (if is_XsError e then probe dev i cs tr2 else (Inl e, tr2))"
    using assms(3) by simp
  finally have eq: "get_xsboard dev (Some i) [] tr
           = (if is_XsError e then probe dev i cs tr2 else (Inl e, tr2))" .
  have "is_fatal e \<or> is_recoverable e \<Longrightarrow> is_XsError e"
    by (cases e) auto
  with eq show ?thesis by auto
qed

theorem probing_skips_every_XsError_witness:
  "get_xsboard fatal_on_Xula50 (Some 0) [] []
     = (Inr (Some (Board Xula200 0)),
        [New XulaOldFmw 0, GetInfo, New Xula50 0, GetInfo, FpgaIsConnected Xula50,
         New Xula200 0, GetInfo, FpgaIsConnected Xula200])"
proof -
  have a: "board_classes = [XulaOldFmw] @ Xula50 # [Xula200, Xula2lx25, Xula2lx9, XulaNoJtag]"
    by (simp add: board_classes_def)
  have b: "probe fatal_on_Xula50 0 [XulaOldFmw] [] = (Inr None, [New XulaOldFmw 0, GetInfo])"
    by code_simp
  have c: "probe_one fatal_on_Xula50 Xula50 0 [New XulaOldFmw 0, GetInfo]
     = (Inl (XsMajorError ''jtag''),
        [New XulaOldFmw 0, GetInfo, New Xula50 0, GetInfo, FpgaIsConnected Xula50])"
    by code_simp
  have d: "probe fatal_on_Xula50 0 [Xula200, Xula2lx25, Xula2lx9, XulaNoJtag]
        [New XulaOldFmw 0, GetInfo, New Xula50 0, GetInfo, FpgaIsConnected Xula50]
     = (Inr (Some (Board Xula200 0)),
        [New XulaOldFmw 0, GetInfo, New Xula50 0, GetInfo, FpgaIsConnected Xula50,
         New Xula200 0, GetInfo, FpgaIsConnected Xula200])"
    by code_simp
  from probing_skips_every_XsError [OF a b c] d show ?thesis
    by simp
qed

text \<open>
  C1 as it is stated fails: the connectivity check of the XuLA-50 raises a fatal error,
  and the identification does not raise it but goes on and returns the XuLA-200.
\<close>

theorem fatal_error_does_not_abort_probing:
  "is_fatal (XsMajorError ''jtag'')
   \<and> probe_one fatal_on_Xula50 Xula50 0 [New XulaOldFmw 0, GetInfo]
       = (Inl (XsMajorError ''jtag''),
          [New XulaOldFmw 0, GetInfo, New Xula50 0, GetInfo, FpgaIsConnected Xula50])
   \<and> fst (get_xsboard fatal_on_Xula50 (Some 0) [] []) = Inr (Some (Board Xula200 0))"
  by code_simp

text \<open>
  C9, as the code has it. When the requested name equals, letter case aside, the name
  of a class, \<open>get_xsboard\<close> builds the first such class of the priority list and
  returns its object without any connectivity check; whatever the constructor raises
  reaches the caller unchanged.
\<close>

theorem named_class_is_first_match:
  assumes "board_classes = pre @ c # cs"
    and "\<forall>d\<in>set pre. lower nm \<noteq> lower (name d)"
    and "lower nm = lower (name c)"
  shows "get_xsboard dev (Some i) nm tr
           = ((case new_reply dev tr c i of None \<Rightarrow> Inr (Some (Board c i)) | Some e \<Rightarrow> Inl e),
              tr @ [New c i])"
proof -
  from assms(2,3) have "find (\<lambda>c. lower nm = lower (name c)) (pre @ c # cs) = Some c"
    by (intro find_first) auto
  with assms(1) have "find (\<lambda>c. lower nm = lower (name c)) board_classes = Some c"
    by simp
  then show ?thesis
    by (simp add: get_xsboard_def new_def split: option.splits)
qed

theorem named_class_is_first_match_witness:
  "get_xsboard no_usb (Some 0) ''xula2-lx9'' []
     = (Inl (XsMajorError ''usb''), [New Xula2lx9 0])"
proof -
  have a: "board_classes = [XulaOldFmw, Xula50, Xula200, Xula2lx25] @ Xula2lx9 # [XulaNoJtag]"
    by (simp add: board_classes_def)
  have b: "\<forall>d\<in>set [XulaOldFmw, Xula50, Xula200, Xula2lx25].
      lower ''xula2-lx9'' \<noteq> lower (name d)"
    by code_simp
  have c: "lower ''xula2-lx9'' = lower (name Xula2lx9)"
    by code_simp
  have d: "new_reply no_usb [] Xula2lx9 0 = Some (XsMajorError ''usb'')"
    by (simp add: no_usb_def steady_link_def)
  from named_class_is_first_match [OF a b c, of no_usb 0 "[]"] d show ?thesis
    by simp
qed

text \<open>
  C9 as it is stated fails: the name "XuLA UNKNOWN" is the name of two classes, so
  there is no single class of that name; \<open>XulaOldFmw\<close> is built, \<open>XulaNoJtag\<close> never.
\<close>

theorem shared_name_selects_XulaOldFmw:
  "lower ''XuLA UNKNOWN'' = lower (name XulaOldFmw)
   \<and> lower ''XuLA UNKNOWN'' = lower (name XulaNoJtag)
   \<and> XulaOldFmw \<noteq> XulaNoJtag
   \<and> get_xsboard fatal_on_Xula50 (Some 0) ''XuLA UNKNOWN'' []
       = (Inr (Some (Board XulaOldFmw 0)), [New XulaOldFmw 0])"
  by code_simp

text \<open>
  C10. A requested name that is the name of no class, letter case aside, is not reported:
  \<open>get_xsboard\<close> probes the whole priority list as if no name had been given, and so
  returns whichever board answers, or \<^verbatim>\<open>None\<close>.
\<close>

theorem unknown_name_falls_through:
  assumes "\<forall>c\<in>set board_classes. lower nm \<noteq> lower (name c)"
  shows "get_xsboard dev (Some i) nm tr = probe dev i board_classes tr"
  using assms by (simp add: get_xsboard_def find_none)

theorem unknown_name_falls_through_witness:
  "get_xsboard fatal_on_Xula50 (Some 0) ''XuLA-51'' []
     = (Inr (Some (Board Xula200 0)),
        [New XulaOldFmw 0, GetInfo, New Xula50 0, GetInfo, FpgaIsConnected Xula50,
         New Xula200 0, GetInfo, FpgaIsConnected Xula200])"
proof -
  have a: "\<forall>c\<in>set board_classes. lower ''XuLA-51'' \<noteq> lower (name c)"
    by code_simp
  have b: "probe fatal_on_Xula50 0 board_classes []
     = (Inr (Some (Board Xula200 0)),
        [New XulaOldFmw 0, GetInfo, New Xula50 0, GetInfo, FpgaIsConnected Xula50,
         New Xula200 0, GetInfo, FpgaIsConnected Xula200])"
    by code_simp
  from unknown_name_falls_through [OF a, of fatal_on_Xula50 0 "[]"] b show ?thesis
    by simp
qed

text \<open>On a link that answers no request, the same call returns \<^verbatim>\<open>None\<close>.\<close>

lemma unknown_name_on_dead_link:
  "fst (get_xsboard
          (flaky_link (Inl (XsMinorError ''usb'')) None (Inl (XsMinorError ''usb'')))
          (Some 0) ''XuLA-51'' []) = Inr None"
  by code_simp

section \<open>Properties of the configuration-flash methods of \<^verbatim>\<open>Xula\<close>\<close>

lemma configure_result:
  "configure per b s =
     (case fpga_configure_reply per b of
        Some e \<Rightarrow> (Inl e, send_phase ''Downloading bitstream'' s)
      | None \<Rightarrow> (Inr (), send_phase ''Download complete''
                          (send_phase ''Downloading bitstream'' s)))"
  by (simp add: configure_def Let_def split: option.splits)

lemma send_phase_fields [simp]:
  "cfg_flash_flag (send_phase p s) = cfg_flash_flag s"
  "flash_calls (send_phase p s) = flash_calls s"
  "flash_enabled (send_phase p s) = flash_enabled s"
  by (simp_all add: send_phase_def flash_enabled_def)

lemma note_call_fields [simp]:
  "cfg_flash_flag (note_call c s) = cfg_flash_flag s"
  "flash_calls (note_call c s) = flash_calls s @ [c]"
  "flash_enabled (note_call c s) = flash_enabled s"
  by (simp_all add: note_call_def flash_enabled_def)

lemma micro_enable_fields [simp]:
  "cfg_flash_flag (micro_enable_cfg_flash s) = 1"
  "flash_calls (micro_enable_cfg_flash s) = flash_calls s @ [EnableCfgFlash]"
  "flash_enabled (micro_enable_cfg_flash s)"
  by (simp_all add: micro_enable_cfg_flash_def flash_enabled_def)

lemma micro_set_fields [simp]:
  "cfg_flash_flag (micro_set_cfg_flash_flag v s) = v"
  "flash_calls (micro_set_cfg_flash_flag v s) = flash_calls s @ [SetCfgFlashFlag v]"
  by (simp_all add: micro_set_cfg_flash_flag_def)

lemma Xula_read_flag:
  "(Xula_read_cfg_flash per b bottom top' s = (Inr d, s') \<longrightarrow>
       cfg_flash_flag s' = cfg_flash_flag s
     \<and> flash_calls s' = flash_calls s
          @ [GetCfgFlashFlag, EnableCfgFlash, FlashRead bottom top',
             SetCfgFlashFlag (cfg_flash_flag s)])
   \<and> (Xula_read_cfg_flash per b bottom top' s = (Inl e, s') \<longrightarrow>
       flash_enabled s'
     \<and> flash_calls s' = flash_calls s @ [GetCfgFlashFlag, EnableCfgFlash]
          @ (if fpga_configure_reply per b = None then [FlashRead bottom top'] else []))
   \<and> fst (Xula_read_cfg_flash per b bottom top' s)
       = (case fpga_configure_reply per b of
            Some x \<Rightarrow> Inl x
          | None \<Rightarrow> flash_read_reply per True bottom top')"
  by (auto simp add: Xula_read_cfg_flash_def XulaBase_read_cfg_flash_def Let_def
      micro_get_cfg_flash_flag_def configure_result flash_read_def
      split: sum.splits option.splits)

lemma Xula_erase_flag:
  "(Xula_erase_cfg_flash per b bottom top' s = (Inr u, s') \<longrightarrow>
       cfg_flash_flag s' = cfg_flash_flag s
     \<and> flash_calls s' = flash_calls s
          @ [GetCfgFlashFlag, EnableCfgFlash, FlashErase,
             SetCfgFlashFlag (cfg_flash_flag s)])
   \<and> (Xula_erase_cfg_flash per b bottom top' s = (Inl e, s') \<longrightarrow>
       flash_enabled s'
     \<and> flash_calls s' = flash_calls s @ [GetCfgFlashFlag, EnableCfgFlash]
          @ (if fpga_configure_reply per b = None then [FlashErase] else []))
   \<and> fst (Xula_erase_cfg_flash per b bottom top' s)
       = (case fpga_configure_reply per b of
            Some x \<Rightarrow> Inl x
          | None \<Rightarrow> (case flash_erase_reply per True of Some x \<Rightarrow> Inl x | None \<Rightarrow> Inr ()))"
  by (auto simp add: Xula_erase_cfg_flash_def XulaBase_erase_cfg_flash_def Let_def
      micro_get_cfg_flash_flag_def configure_result flash_erase_def
      split: sum.splits option.splits)

lemma Xula_write_flag:
  "(Xula_write_cfg_flash per b hexfile bottom top' s = (Inr u, s') \<longrightarrow>
       cfg_flash_flag s' = cfg_flash_flag s
     \<and> flash_calls s' = flash_calls s
          @ [GetCfgFlashFlag, EnableCfgFlash, FlashErase, FlashWrite hexfile bottom top',
             SetCfgFlashFlag (cfg_flash_flag s)])
   \<and> (Xula_write_cfg_flash per b hexfile bottom top' s = (Inl e, s') \<longrightarrow>
       flash_enabled s'
     \<and> flash_calls s' = flash_calls s @ [GetCfgFlashFlag, EnableCfgFlash]
          @ (if fpga_configure_reply per b = None
             then FlashErase #
                  (if flash_erase_reply per True = None
                   then [FlashWrite hexfile bottom top'] else [])
             else []))
   \<and> fst (Xula_write_cfg_flash per b hexfile bottom top' s)
       = (case fpga_configure_reply per b of
            Some x \<Rightarrow> Inl x
          | None \<Rightarrow>
              (case flash_erase_reply per True of
                 Some x \<Rightarrow> Inl x
               | None \<Rightarrow>
                   (case flash_write_reply per True hexfile bottom top' of
                      Some x \<Rightarrow> Inl x
                    | None \<Rightarrow> Inr ())))"
  by (auto simp add: Xula_write_cfg_flash_def XulaBase_write_cfg_flash_def Let_def
      micro_get_cfg_flash_flag_def configure_result flash_erase_def flash_write_def
      split: sum.splits option.splits)

text \<open>
  C6, as the code has it. The read, write and erase methods of \<^verbatim>\<open>Xula\<close> first read
  the flag, then enable the flash, then run the flash operations, each of which finds
  the flash enabled whatever the flag was before the call (the outcome is the answer of
  the flash to an enabled call). When the method returns, the last call writes the saved
  value back and the flag is what it was before the call, whatever that value was. When
  loading the bitstream or a flash operation raises, the flag is not written back and
  stays enabled.
\<close>

theorem flash_flag_saved_enabled_restored:
  "((Xula_read_cfg_flash per b bottom top' s = (Inr d, s1) \<longrightarrow>
       cfg_flash_flag s1 = cfg_flash_flag s
     \<and> flash_calls s1 = flash_calls s
          @ [GetCfgFlashFlag, EnableCfgFlash, FlashRead bottom top',
             SetCfgFlashFlag (cfg_flash_flag s)])
   \<and> (Xula_read_cfg_flash per b bottom top' s = (Inl e1, s1) \<longrightarrow>
       flash_enabled s1
     \<and> flash_calls s1 = flash_calls s @ [GetCfgFlashFlag, EnableCfgFlash]
          @ (if fpga_configure_reply per b = None then [FlashRead bottom top'] else []))
   \<and> fst (Xula_read_cfg_flash per b bottom top' s)
       = (case fpga_configure_reply per b of
            Some x \<Rightarrow> Inl x
          | None \<Rightarrow> flash_read_reply per True bottom top'))
 \<and> ((Xula_write_cfg_flash per b hexfile wbottom wtop s = (Inr u2, s2) \<longrightarrow>
       cfg_flash_flag s2 = cfg_flash_flag s
     \<and> flash_calls s2 = flash_calls s
          @ [GetCfgFlashFlag, EnableCfgFlash, FlashErase, FlashWrite hexfile wbottom wtop,
             SetCfgFlashFlag (cfg_flash_flag s)])
   \<and> (Xula_write_cfg_flash per b hexfile wbottom wtop s = (Inl e2, s2) \<longrightarrow>
       flash_enabled s2
     \<and> flash_calls s2 = flash_calls s @ [GetCfgFlashFlag, EnableCfgFlash]
          @ (if fpga_configure_reply per b = None
             then FlashErase #
                  (if flash_erase_reply per True = None
                   then [FlashWrite hexfile wbottom wtop] else [])
             else []))
   \<and> fst (Xula_write_cfg_flash per b hexfile wbottom wtop s)
       = (case fpga_configure_reply per b of
            Some x \<Rightarrow> Inl x
          | None \<Rightarrow>
              (case flash_erase_reply per True of
                 Some x \<Rightarrow> Inl x
               | None \<Rightarrow>
                   (case flash_write_reply per True hexfile wbottom wtop of
                      Some x \<Rightarrow> Inl x
                    | None \<Rightarrow> Inr ()))))
 \<and> ((Xula_erase_cfg_flash per b wbottom wtop s = (Inr u3, s3) \<longrightarrow>
       cfg_flash_flag s3 = cfg_flash_flag s
     \<and> flash_calls s3 = flash_calls s
          @ [GetCfgFlashFlag, EnableCfgFlash, FlashErase,
             SetCfgFlashFlag (cfg_flash_flag s)])
   \<and> (Xula_erase_cfg_flash per b wbottom wtop s = (Inl e3, s3) \<longrightarrow>
       flash_enabled s3
     \<and> flash_calls s3 = flash_calls s @ [GetCfgFlashFlag, EnableCfgFlash]
          @ (if fpga_configure_reply per b = None then [FlashErase] else []))
   \<and> fst (Xula_erase_cfg_flash per b wbottom wtop s)
       = (case fpga_configure_reply per b of
            Some x \<Rightarrow> Inl x
          | None \<Rightarrow> (case flash_erase_reply per True of Some x \<Rightarrow> Inl x | None \<Rightarrow> Inr ())))"
  by (rule conjI [OF Xula_read_flag conjI [OF Xula_write_flag Xula_erase_flag]])

theorem flash_flag_saved_enabled_restored_witness:
  "cfg_flash_flag (snd (Xula_read_cfg_flash good_peripherals ''fintf_jtag_50.bit'' 0 16
       (fresh_board 0))) = 0
   \<and> flash_calls (snd (Xula_read_cfg_flash good_peripherals ''fintf_jtag_50.bit'' 0 16
       (fresh_board 0)))
       = [GetCfgFlashFlag, EnableCfgFlash, FlashRead 0 16, SetCfgFlashFlag 0]
   \<and> cfg_flash_flag (snd (Xula_write_cfg_flash good_peripherals ''fintf_jtag_50.bit'' [7]
       None None (fresh_board 5))) = 5
   \<and> flash_calls (snd (Xula_write_cfg_flash good_peripherals ''fintf_jtag_50.bit'' [7]
       None None (fresh_board 5)))
       = [GetCfgFlashFlag, EnableCfgFlash, FlashErase, FlashWrite [7] None None,
          SetCfgFlashFlag 5]
   \<and> cfg_flash_flag (snd (Xula_erase_cfg_flash good_peripherals ''fintf_jtag_50.bit''
       None None (fresh_board 5))) = 5
   \<and> flash_enabled (snd (Xula_erase_cfg_flash bad_flash ''fintf_jtag_50.bit''
       None None (fresh_board 0)))
   \<and> flash_calls (snd (Xula_erase_cfg_flash bad_flash ''fintf_jtag_50.bit''
       None None (fresh_board 0)))
       = [GetCfgFlashFlag, EnableCfgFlash, FlashErase]"
proof -
  let ?r = "Xula_read_cfg_flash good_peripherals ''fintf_jtag_50.bit'' 0 16 (fresh_board 0)"
  let ?w = "Xula_write_cfg_flash good_peripherals ''fintf_jtag_50.bit'' [7] None None
      (fresh_board 5)"
  let ?e = "Xula_erase_cfg_flash good_peripherals ''fintf_jtag_50.bit'' None None
      (fresh_board 5)"
  let ?f = "Xula_erase_cfg_flash bad_flash ''fintf_jtag_50.bit'' None None (fresh_board 0)"
  have "fst ?r = Inr [1, 2, 3]"
    by code_simp
  then have r: "?r = (Inr [1, 2, 3], snd ?r)"
    by (simp add: prod_eq_iff)
  have "fst ?w = Inr ()"
    by code_simp
  then have w: "?w = (Inr (), snd ?w)"
    by (simp add: prod_eq_iff)
  have "fst ?e = Inr ()"
    by code_simp
  then have e: "?e = (Inr (), snd ?e)"
    by (simp add: prod_eq_iff)
  have "fst ?f = Inl (XsMajorError ''flash'')"
    by code_simp
  then have f: "?f = (Inl (XsMajorError ''flash''), snd ?f)"
    by (simp add: prod_eq_iff)
  have c: "fpga_configure_reply bad_flash ''fintf_jtag_50.bit'' = None"
    by (simp add: bad_flash_def)
  have b0: "cfg_flash_flag (fresh_board 0) = 0" "flash_calls (fresh_board 0) = []"
    and b5: "cfg_flash_flag (fresh_board 5) = 5" "flash_calls (fresh_board 5) = []"
    by (simp_all add: fresh_board_def)
  from flash_flag_saved_enabled_restored [of good_peripherals "''fintf_jtag_50.bit''" 0 16
      "fresh_board 0" "[1, 2, 3]" "snd ?r"] r b0
  have 1: "cfg_flash_flag (snd ?r) = 0
    \<and> flash_calls (snd ?r) = [GetCfgFlashFlag, EnableCfgFlash, FlashRead 0 16, SetCfgFlashFlag 0]"
    by simp
  from flash_flag_saved_enabled_restored [of good_peripherals "''fintf_jtag_50.bit''" _ _
      "fresh_board 5" _ _ _ "[7]" None None "()" "snd ?w" _ "()" "snd ?e"] w e b5
  have 2: "cfg_flash_flag (snd ?w) = 5
    \<and> flash_calls (snd ?w) = [GetCfgFlashFlag, EnableCfgFlash, FlashErase,
         FlashWrite [7] None None, SetCfgFlashFlag 5]
    \<and> cfg_flash_flag (snd ?e) = 5"
    by simp
  from flash_flag_saved_enabled_restored [of bad_flash "''fintf_jtag_50.bit''" _ _
      "fresh_board 0" _ _ _ _ None None _ _ _ _ "snd ?f" "XsMajorError ''flash''"] f b0 c
  have 3: "flash_enabled (snd ?f)
    \<and> flash_calls (snd ?f) = [GetCfgFlashFlag, EnableCfgFlash, FlashErase]"
    by simp
  from 1 2 3 show ?thesis
    by blast
qed

text \<open>
  Enabling matters: with the flag off, the method of \<^verbatim>\<open>XulaBase\<close> alone finds the
  flash of \<open>good_peripherals\<close> unreachable, the method of \<^verbatim>\<open>Xula\<close> reads it.
\<close>

lemma flash_read_needs_the_flag:
  "fst (XulaBase_read_cfg_flash good_peripherals ''fintf_jtag_50.bit'' 0 16 (fresh_board 0))
     = Inl (XsMajorError ''flash disabled'')
   \<and> fst (Xula_read_cfg_flash good_peripherals ''fintf_jtag_50.bit'' 0 16 (fresh_board 0))
     = Inr [1, 2, 3]"
  by code_simp

text \<open>
  C6 as it is stated fails: with the flag off before the call and a flash read that
  raises, the flag is on after the call.
\<close>

theorem failed_flash_read_leaves_flag_enabled:
  "cfg_flash_flag (fresh_board 0) = 0
   \<and> fst (Xula_read_cfg_flash bad_flash ''fintf_jtag_50.bit'' 0 16 (fresh_board 0))
       = Inl (XsMajorError ''flash'')
   \<and> cfg_flash_flag (snd (Xula_read_cfg_flash bad_flash ''fintf_jtag_50.bit'' 0 16
       (fresh_board 0))) = 1"
  by code_simp

end
